theory Spec2Isabelle
  imports Complex_Main
begin

section \<open>Numbers\<close>

text \<open>
  The library computes delays, budgets, rates and thresholds with JavaScript numbers.
  They are modelled as real numbers: the properties below are about comparisons, minima,
  maxima and products, and say nothing about rounding. Counters that the code only ever
  increments by one from zero are natural numbers. A value produced by
  \<^verbatim>\<open>Math.random()\<close> or \<^verbatim>\<open>Date.now()\<close> is an input of the function that reads it.
\<close>

section \<open>Backoff (backoff.ts)\<close>

datatype JitterStrategy = NoJitter | Full | Equal | Decorrelated

text \<open>
  \<^verbatim>\<open>calculateBackoff(attempt, initialDelayMs, maxDelayMs, multiplier = 2, jitter = 'full',
  previousDelay?)\<close>. The three optional parameters are options; \<open>rnd\<close> is the value that
  \<^verbatim>\<open>Math.random()\<close> returns in the branch that draws it. The \<^verbatim>\<open>default:\<close> branch of the
  switch is not reachable for a value of the type \<^verbatim>\<open>JitterStrategy\<close>.
\<close>

definition calculateBackoff ::
  "nat \<Rightarrow> real \<Rightarrow> real \<Rightarrow> real option \<Rightarrow> JitterStrategy option \<Rightarrow> real option \<Rightarrow> real \<Rightarrow> real"
where
  "calculateBackoff attempt initialDelayMs maxDelayMs multiplier jitter previousDelay rnd =
     (let m = (case multiplier of None \<Rightarrow> 2 | Some x \<Rightarrow> x);
          j = (case jitter of None \<Rightarrow> Full | Some x \<Rightarrow> x);
          exponentialDelay = initialDelayMs * m ^ attempt;
          cappedDelay = min exponentialDelay maxDelayMs
      in case j of
           NoJitter \<Rightarrow> cappedDelay
         | Full \<Rightarrow> rnd * cappedDelay
         | Equal \<Rightarrow> (cappedDelay / 2) + (rnd * cappedDelay / 2)
         | Decorrelated \<Rightarrow>
             (let prev = (case previousDelay of None \<Rightarrow> initialDelayMs | Some p \<Rightarrow> p);
                  decorrelated = rnd * (prev * 3 - initialDelayMs) + initialDelayMs
              in min decorrelated maxDelayMs))"

section \<open>Adaptive retry budget (adaptive-budget.ts)\<close>

record AdaptiveRetryOptions =
  opt_initialBudget :: "real option"
  opt_budgetIncreaseRate :: "real option"
  opt_budgetDecreaseRate :: "real option"
  opt_highFailureThreshold :: "real option"
  opt_lowFailureThreshold :: "real option"
  opt_adjustmentIntervalMs :: "real option"
  opt_onBudgetChange :: bool
  opt_checkBackpressure :: bool

text \<open>
  The two callbacks of the options are external code. \<open>opt_onBudgetChange\<close> and
  \<open>opt_checkBackpressure\<close> say whether one was given; the calls made to the observer are
  kept in \<open>budgetChanges\<close>, and the value that awaiting \<^verbatim>\<open>checkBackpressure()\<close> yields is an
  input of \<open>shouldRetry\<close>.
\<close>

record AdaptiveRetryBudget =
  budget :: real
  failureRate :: real
  totalRequests :: nat
  successfulRequests :: nat
  failedRequests :: nat
  totalRetries :: nat
  initialBudget :: real
  budgetIncreaseRate :: real
  budgetDecreaseRate :: real
  highFailureThreshold :: real
  lowFailureThreshold :: real
  adjustmentIntervalMs :: real
  onBudgetChange :: bool
  checkBackpressure :: bool
  emaAlpha :: real
  adjustmentTimer :: bool
  budgetChanges :: "(real \<times> real) list"

definition nullish :: "'a option \<Rightarrow> 'a \<Rightarrow> 'a" where
  "nullish v d = (case v of None \<Rightarrow> d | Some x \<Rightarrow> x)"

definition new_AdaptiveRetryBudget :: "AdaptiveRetryOptions \<Rightarrow> AdaptiveRetryBudget" where
  "new_AdaptiveRetryBudget options =
     \<lparr> budget = nullish (opt_initialBudget options) 0.2,
       failureRate = 0,
       totalRequests = 0,
       successfulRequests = 0,
       failedRequests = 0,
       totalRetries = 0,
       initialBudget = nullish (opt_initialBudget options) 0.2,
       budgetIncreaseRate = nullish (opt_budgetIncreaseRate options) 0.1,
       budgetDecreaseRate = nullish (opt_budgetDecreaseRate options) 0.5,
       highFailureThreshold = nullish (opt_highFailureThreshold options) 0.3,
       lowFailureThreshold = nullish (opt_lowFailureThreshold options) 0.05,
       adjustmentIntervalMs = nullish (opt_adjustmentIntervalMs options) 1000,
       onBudgetChange = opt_onBudgetChange options,
       checkBackpressure = opt_checkBackpressure options,
       emaAlpha = 0.1,
       adjustmentTimer = True,
       budgetChanges = [] \<rparr>"

text \<open>
  \<^verbatim>\<open>shouldRetrySync()\<close>; \<open>rnd\<close> is the value of \<^verbatim>\<open>Math.random()\<close>. The result is the
  returned boolean and the object after the call.
\<close>

definition shouldRetrySync :: "real \<Rightarrow> AdaptiveRetryBudget \<Rightarrow> bool \<times> AdaptiveRetryBudget" where
  "shouldRetrySync rnd b =
     (if budget b \<le> 0 then (False, b)
      else let retryProbability = min (budget b) (1 - failureRate b)
           in if rnd < retryProbability
              then (True, b\<lparr> budget := max 0 (budget b - 0.01),
                             totalRetries := totalRetries b + 1 \<rparr>)
              else (False, b))"

text \<open>
  \<^verbatim>\<open>shouldRetry()\<close>; \<open>isBackpressured\<close> is what awaiting the callback yields, read only when
  a callback was configured.
\<close>

definition shouldRetry :: "bool \<Rightarrow> real \<Rightarrow> AdaptiveRetryBudget \<Rightarrow> bool \<times> AdaptiveRetryBudget" where
  "shouldRetry isBackpressured rnd b =
     (if checkBackpressure b \<and> isBackpressured then (False, b)
      else if budget b \<le> 0 then (False, b)
      else let retryProbability = min (budget b) (1 - failureRate b)
           in if rnd < retryProbability
              then (True, b\<lparr> budget := max 0 (budget b - 0.01),
                             totalRetries := totalRetries b + 1 \<rparr>)
              else (False, b))"

definition recordOutcome :: "bool \<Rightarrow> AdaptiveRetryBudget \<Rightarrow> AdaptiveRetryBudget" where
  "recordOutcome success b =
     (let b1 = b\<lparr> totalRequests := totalRequests b + 1 \<rparr>;
          b2 = (if success then b1\<lparr> successfulRequests := successfulRequests b1 + 1 \<rparr>
                else b1\<lparr> failedRequests := failedRequests b1 + 1 \<rparr>);
          failed = (if success then 0 else 1)
      in b2\<lparr> failureRate := (1 - emaAlpha b2) * failureRate b2 + emaAlpha b2 * failed \<rparr>)"

definition budget_reset :: "AdaptiveRetryBudget \<Rightarrow> AdaptiveRetryBudget" where
  "budget_reset b =
     b\<lparr> budget := initialBudget b, failureRate := 0, totalRequests := 0,
        successfulRequests := 0, failedRequests := 0, totalRetries := 0 \<rparr>"

definition dispose :: "AdaptiveRetryBudget \<Rightarrow> AdaptiveRetryBudget" where
  "dispose b = (if adjustmentTimer b then b\<lparr> adjustmentTimer := False \<rparr> else b)"

definition adjustBudget :: "AdaptiveRetryBudget \<Rightarrow> AdaptiveRetryBudget" where
  "adjustBudget b =
     (let previousBudget = budget b;
          b1 = (if failureRate b > highFailureThreshold b
                then b\<lparr> budget := budget b * (1 - budgetDecreaseRate b) \<rparr>
                else if failureRate b < lowFailureThreshold b
                then b\<lparr> budget := min (initialBudget b) (budget b + budgetIncreaseRate b) \<rparr>
                else b)
      in if \<bar>previousBudget - budget b1\<bar> > 0.001 \<and> onBudgetChange b1
         then b1\<lparr> budgetChanges := budgetChanges b1 @ [(budget b1, failureRate b1)] \<rparr>
         else b1)"

text \<open>
  Everything that can happen to a budget object after its construction: the public methods
  and the firing of the adjustment timer, which runs \<open>adjustBudget\<close> while the timer is
  set.
\<close>

datatype budget_call =
    ShouldRetry bool real
  | ShouldRetrySync real
  | RecordOutcome bool
  | Reset
  | Dispose
  | TimerFires

fun budget_step :: "budget_call \<Rightarrow> AdaptiveRetryBudget \<Rightarrow> AdaptiveRetryBudget" where
  "budget_step (ShouldRetry bp rnd) b = snd (shouldRetry bp rnd b)"
| "budget_step (ShouldRetrySync rnd) b = snd (shouldRetrySync rnd b)"
| "budget_step (RecordOutcome success) b = recordOutcome success b"
| "budget_step Reset b = budget_reset b"
| "budget_step Dispose b = dispose b"
| "budget_step TimerFires b = (if adjustmentTimer b then adjustBudget b else b)"

fun budget_run :: "budget_call list \<Rightarrow> AdaptiveRetryBudget \<Rightarrow> AdaptiveRetryBudget" where
  "budget_run [] b = b"
| "budget_run (c # cs) b = budget_run cs (budget_step c b)"

definition documented_ranges :: "AdaptiveRetryOptions \<Rightarrow> bool" where
  "documented_ranges options =
     (0 \<le> nullish (opt_initialBudget options) 0.2 \<and>
      0 \<le> nullish (opt_budgetIncreaseRate options) 0.1 \<and>
      0 \<le> nullish (opt_budgetDecreaseRate options) 0.5 \<and>
      nullish (opt_budgetDecreaseRate options) 0.5 \<le> 1)"

section \<open>Circuit breaker (circuit-breaker.ts)\<close>

datatype CircuitState = Closed | Open | HalfOpen

record CircuitBreakerOptions =
  opt_failureThreshold :: "real option"
  opt_windowSize :: "nat option"
  opt_resetTimeoutMs :: "real option"
  opt_onStateChange :: bool

text \<open>
  \<open>windowSize\<close> is a number of requests, a natural number. \<open>opt_onStateChange\<close> says
  whether an observer was given; the states it is called with are kept in
  \<open>stateChanges\<close>. \<open>now\<close> is the value of \<^verbatim>\<open>Date.now()\<close> where a method reads it.
\<close>

record CircuitBreaker =
  state :: CircuitState
  failures :: "bool list"
  lastFailureTime :: real
  halfOpenAttempts :: nat
  failureThreshold :: real
  windowSize :: nat
  resetTimeoutMs :: real
  onStateChange :: bool
  stateChanges :: "CircuitState list"

definition new_CircuitBreaker :: "CircuitBreakerOptions \<Rightarrow> CircuitBreaker" where
  "new_CircuitBreaker options =
     \<lparr> state = Closed,
       failures = [],
       lastFailureTime = 0,
       halfOpenAttempts = 0,
       failureThreshold = nullish (opt_failureThreshold options) 0.5,
       windowSize = nullish (opt_windowSize options) 10,
       resetTimeoutMs = nullish (opt_resetTimeoutMs options) 30000,
       onStateChange = opt_onStateChange options,
       stateChanges = [] \<rparr>"

definition transition :: "CircuitState \<Rightarrow> CircuitBreaker \<Rightarrow> CircuitBreaker" where
  "transition newState b =
     (if state b \<noteq> newState
      then b\<lparr> state := newState, halfOpenAttempts := 0,
              stateChanges := (if onStateChange b then stateChanges b @ [newState]
                               else stateChanges b) \<rparr>
      else b)"

function trimWindow_loop :: "nat \<Rightarrow> bool list \<Rightarrow> bool list" where
  "trimWindow_loop n fs = (if length fs > n then trimWindow_loop n (tl fs) else fs)"
  by pat_completeness auto
termination
  by (relation "measure (\<lambda>(n, fs). length fs)") auto

definition trimWindow :: "CircuitBreaker \<Rightarrow> CircuitBreaker" where
  "trimWindow b = b\<lparr> failures := trimWindow_loop (windowSize b) (failures b) \<rparr>"

definition getState :: "real \<Rightarrow> CircuitBreaker \<Rightarrow> CircuitState \<times> CircuitBreaker" where
  "getState now b =
     (let b1 = (if state b = Open
                then (let timeSinceFailure = now - lastFailureTime b
                      in if timeSinceFailure \<ge> resetTimeoutMs b then transition HalfOpen b
                         else b)
                else b)
      in (state b1, b1))"

definition isAllowed :: "real \<Rightarrow> CircuitBreaker \<Rightarrow> bool \<times> CircuitBreaker" where
  "isAllowed now b =
     (let (currentState, b1) = getState now b
      in if currentState = Closed then (True, b1)
         else if currentState = HalfOpen
         then (let b2 = b1\<lparr> halfOpenAttempts := halfOpenAttempts b1 + 1 \<rparr>
               in (halfOpenAttempts b2 \<le> 1, b2))
         else (False, b1))"

definition recordSuccess :: "CircuitBreaker \<Rightarrow> CircuitBreaker" where
  "recordSuccess b =
     (let b1 = trimWindow (b\<lparr> failures := failures b @ [False] \<rparr>)
      in if state b1 = HalfOpen then (transition Closed b1)\<lparr> failures := [] \<rparr>
         else b1)"

definition getFailureRate :: "CircuitBreaker \<Rightarrow> real" where
  "getFailureRate b =
     (if length (failures b) = 0 then 0
      else (let failureCount = length (filter (\<lambda>f. f) (failures b))
            in real failureCount / real (length (failures b))))"

definition recordFailure :: "real \<Rightarrow> CircuitBreaker \<Rightarrow> CircuitBreaker" where
  "recordFailure now b =
     (let b1 = trimWindow (b\<lparr> failures := failures b @ [True] \<rparr>);
          b2 = b1\<lparr> lastFailureTime := now \<rparr>
      in if state b2 = HalfOpen then transition Open b2
         else if state b2 = Closed \<and> length (failures b2) \<ge> windowSize b2
         then (if getFailureRate b2 \<ge> failureThreshold b2 then transition Open b2 else b2)
         else b2)"

definition breaker_reset :: "CircuitBreaker \<Rightarrow> CircuitBreaker" where
  "breaker_reset b = transition Closed (b\<lparr> failures := [], halfOpenAttempts := 0 \<rparr>)"

text \<open>
  A history of calls on one breaker, each with the clock value it would read. Next to the
  breaker, \<open>breaker_run\<close> counts the \<^verbatim>\<open>isAllowed()\<close> calls answered in the half-open state
  since the state last changed; the count is computed from the history alone, not from the
  breaker's own counter.
\<close>

datatype breaker_call =
    CallIsAllowed real
  | CallGetState real
  | CallRecordSuccess
  | CallRecordFailure real
  | CallGetFailureRate
  | CallReset

fun breaker_step :: "breaker_call \<Rightarrow> CircuitBreaker \<Rightarrow> CircuitBreaker" where
  "breaker_step (CallIsAllowed now) b = snd (isAllowed now b)"
| "breaker_step (CallGetState now) b = snd (getState now b)"
| "breaker_step CallRecordSuccess b = recordSuccess b"
| "breaker_step (CallRecordFailure now) b = recordFailure now b"
| "breaker_step CallGetFailureRate b = b"
| "breaker_step CallReset b = breaker_reset b"

fun is_isAllowed :: "breaker_call \<Rightarrow> bool" where
  "is_isAllowed (CallIsAllowed now) = True"
| "is_isAllowed c = False"

fun breaker_run :: "breaker_call list \<Rightarrow> CircuitBreaker \<times> nat \<Rightarrow> CircuitBreaker \<times> nat" where
  "breaker_run [] (b, n) = (b, n)"
| "breaker_run (c # cs) (b, n) =
     (let b' = breaker_step c b;
          n0 = (if state b' \<noteq> state b then 0 else n);
          n' = (if is_isAllowed c \<and> state b' = HalfOpen then n0 + 1 else n0)
      in breaker_run cs (b', n'))"

text \<open>
  The state that \<^verbatim>\<open>isAllowed()\<close> sees once the pending time-based transition is resolved.
\<close>

definition resolved_state :: "real \<Rightarrow> CircuitBreaker \<Rightarrow> CircuitState" where
  "resolved_state now b =
     (if state b = Open \<and> now - lastFailureTime b \<ge> resetTimeoutMs b then HalfOpen
      else state b)"

section \<open>Backpressure signals (backpressure.ts)\<close>

text \<open>
  \<^verbatim>\<open>parseFloat\<close> can return \<^verbatim>\<open>NaN\<close> and the infinities, and the code stores what it
  returns, so the parsed fields have a type that has them. \<^verbatim>\<open>parseFloat\<close> itself is a
  parameter of \<open>recordFromHeaders\<close>.
\<close>

datatype number = NaN | Num real | PosInfinity | NegInfinity

fun number_times :: "number \<Rightarrow> real \<Rightarrow> number" where
  "number_times NaN k = NaN"
| "number_times (Num x) k = Num (x * k)"
| "number_times PosInfinity k = (if k > 0 then PosInfinity else if k < 0 then NegInfinity else NaN)"
| "number_times NegInfinity k = (if k > 0 then NegInfinity else if k < 0 then PosInfinity else NaN)"

fun number_ge :: "number \<Rightarrow> real \<Rightarrow> bool" where
  "number_ge NaN t = False"
| "number_ge (Num x) t = (x \<ge> t)"
| "number_ge PosInfinity t = True"
| "number_ge NegInfinity t = False"

record BackpressureSignal =
  isOverloaded :: bool
  loadLevel :: "number option"
  retryAfterMs :: "number option"
  timestamp :: real

definition LOAD_LEVEL :: string where "LOAD_LEVEL = ''X-Backpressure''"
definition RETRY_AFTER :: string where "RETRY_AFTER = ''Retry-After''"
definition SHEDDING :: string where "SHEDDING = ''X-Load-Shedding''"

record BackpressureManager =
  signals :: "string \<rightharpoonup> BackpressureSignal"
  signalTtlMs :: real
  overloadThreshold :: real

definition new_BackpressureManager :: "real option \<Rightarrow> real option \<Rightarrow> BackpressureManager" where
  "new_BackpressureManager ttl threshold =
     \<lparr> signals = Map.empty,
       signalTtlMs = nullish ttl 30000,
       overloadThreshold = nullish threshold 0.8 \<rparr>"

definition recordSignal ::
  "real \<Rightarrow> string \<Rightarrow> bool \<times> number option \<times> number option \<Rightarrow> BackpressureManager
   \<Rightarrow> BackpressureManager"
where
  "recordSignal now serviceId signal m =
     (case signal of (ov, ll, ra) \<Rightarrow>
        m\<lparr> signals := (signals m)(serviceId \<mapsto>
              \<lparr> isOverloaded = ov, loadLevel = ll, retryAfterMs = ra, timestamp = now \<rparr>) \<rparr>)"

text \<open>
  The headers are a \<^verbatim>\<open>Headers\<close> object, whose \<^verbatim>\<open>get\<close> ignores the case of the name (its
  entries are kept under lower-case names), or a plain object, looked up under the name as
  written and then under the lower-case name.
\<close>

datatype headers = Headers "string \<rightharpoonup> string" | Record "string \<rightharpoonup> string"

definition lower_char :: "char \<Rightarrow> char" where
  "lower_char c =
     (case map_of (zip ''ABCDEFGHIJKLMNOPQRSTUVWXYZ'' ''abcdefghijklmnopqrstuvwxyz'') c of
        None \<Rightarrow> c | Some d \<Rightarrow> d)"

definition toLowerCase :: "string \<Rightarrow> string" where
  "toLowerCase s = map lower_char s"

fun get_header :: "headers \<Rightarrow> string \<Rightarrow> string option" where
  "get_header (Headers h) name = h (toLowerCase name)"
| "get_header (Record h) name =
     (case h name of Some v \<Rightarrow> Some v | None \<Rightarrow> h (toLowerCase name))"

definition truthy :: "string option \<Rightarrow> bool" where
  "truthy s = (case s of None \<Rightarrow> False | Some v \<Rightarrow> v \<noteq> [])"

text \<open>\<^verbatim>\<open>s ? f(s) : undefined\<close> for a header value \<open>s\<close> that may be \<^verbatim>\<open>null\<close>.\<close>

definition when_truthy :: "string option \<Rightarrow> (string \<Rightarrow> 'a) \<Rightarrow> 'a option" where
  "when_truthy s f = (case s of None \<Rightarrow> None | Some v \<Rightarrow> if v = [] then None else Some (f v))"

definition recordFromHeaders ::
  "(string \<Rightarrow> number) \<Rightarrow> real \<Rightarrow> string \<Rightarrow> headers \<Rightarrow> BackpressureManager \<Rightarrow> BackpressureManager"
where
  "recordFromHeaders parseFloat now serviceId hs m =
     (let loadLevelStr = get_header hs LOAD_LEVEL;
          retryAfterStr = get_header hs RETRY_AFTER;
          sheddingStr = get_header hs SHEDDING;
          loadLevel = when_truthy loadLevelStr parseFloat;
          retryAfterMs = when_truthy retryAfterStr (\<lambda>v. number_times (parseFloat v) 1000);
          isShedding = (sheddingStr = Some ''true'' \<or> sheddingStr = Some ''1'')
      in if loadLevel \<noteq> None \<or> retryAfterMs \<noteq> None \<or> isShedding
         then recordSignal now serviceId
                (isShedding \<or>
                   (case loadLevel of None \<Rightarrow> False
                    | Some l \<Rightarrow> number_ge l (overloadThreshold m)),
                 loadLevel, retryAfterMs) m
         else m)"

section \<open>Retry orchestration (retry.ts)\<close>

subsection \<open>Errors, outcomes and the world of one orchestrated call\<close>

text \<open>
  An error object is an \<^verbatim>\<open>Error\<close> with its message, or the subclass
  \<^verbatim>\<open>CircuitOpenError\<close>. A promise can reject with an error object or with any other value;
  the loops turn the latter into \<^verbatim>\<open>new Error(String(value))\<close>.
\<close>

datatype error = Error string | CircuitOpenError string

datatype thrown = ThrowsError error | ThrowsValue string

fun to_error :: "thrown \<Rightarrow> error" where
  "to_error (ThrowsError e) = e"
| "to_error (ThrowsValue v) = Error v"

text \<open>
  What one invocation of \<^verbatim>\<open>fn\<close> does, as the awaiting loop sees it: it resolves, it
  rejects, or it is still pending when the timeout of the attempt fires (and for ever when
  no timeout is set). What an asynchronous function of the library does: it returns, it
  raises, or its promise never settles.
\<close>

datatype 'a outcome = Resolves 'a | Rejects thrown | Pending

datatype 'a completion = Returns 'a | Raises error | NeverSettles

datatype event =
    FnCalled
  | Slept real
  | OnRetryCalled error nat real
  | IsAllowedCalled bool
  | RecordSuccessCalled
  | RecordFailureCalled
  | RecordOutcomeCalled bool
  | ShouldRetryCalled bool

text \<open>
  The world of one call: the objects it shares (the breaker and the budget), what the
  outside answers (the outcome of each invocation of \<^verbatim>\<open>fn\<close>, each reading of
  \<^verbatim>\<open>Date.now()\<close>, each \<^verbatim>\<open>Math.random()\<close>, each answer of the budget's backpressure check,
  all numbered from 0) with how many of each were consumed, the closure variable
  \<^verbatim>\<open>attempts\<close> of \<open>retryWithResult\<close>, and the trace of the calls made. The call runs
  alone: the budget's timer and other callers of the shared objects are not interleaved.
\<close>

record 'a world =
  fn_outcome :: "nat \<Rightarrow> 'a outcome"
  fn_calls :: nat
  clock :: "nat \<Rightarrow> real"
  clock_reads :: nat
  random :: "nat \<Rightarrow> real"
  random_calls :: nat
  backpressured :: "nat \<Rightarrow> bool"
  backpressure_calls :: nat
  circuitBreaker :: CircuitBreaker
  budgetManager :: AdaptiveRetryBudget
  attempts_var :: nat
  trace :: "event list"

definition invoke_fn :: "'a world \<Rightarrow> 'a outcome \<times> 'a world" where
  "invoke_fn w =
     (fn_outcome w (fn_calls w),
      w\<lparr> fn_calls := fn_calls w + 1, trace := trace w @ [FnCalled] \<rparr>)"

definition Date_now :: "'a world \<Rightarrow> real \<times> 'a world" where
  "Date_now w = (clock w (clock_reads w), w\<lparr> clock_reads := clock_reads w + 1 \<rparr>)"

definition Math_random :: "'a world \<Rightarrow> real \<times> 'a world" where
  "Math_random w = (random w (random_calls w), w\<lparr> random_calls := random_calls w + 1 \<rparr>)"

definition sleep :: "real \<Rightarrow> 'a world \<Rightarrow> 'a world" where
  "sleep ms w = w\<lparr> trace := trace w @ [Slept ms] \<rparr>"

subsection \<open>The shared objects, called from a loop\<close>

text \<open>
  \<^verbatim>\<open>isAllowed()\<close> reads the clock only in the open state, \<^verbatim>\<open>recordFailure()\<close> always.
\<close>

definition breaker_isAllowed :: "'a world \<Rightarrow> bool \<times> 'a world" where
  "breaker_isAllowed w =
     (let (now, w1) = (if state (circuitBreaker w) = Open then Date_now w else (0, w));
          (allowed, b) = isAllowed now (circuitBreaker w1)
      in (allowed, w1\<lparr> circuitBreaker := b, trace := trace w1 @ [IsAllowedCalled allowed] \<rparr>))"

definition breaker_recordSuccess :: "'a world \<Rightarrow> 'a world" where
  "breaker_recordSuccess w =
     w\<lparr> circuitBreaker := recordSuccess (circuitBreaker w),
        trace := trace w @ [RecordSuccessCalled] \<rparr>"

definition breaker_recordFailure :: "'a world \<Rightarrow> 'a world" where
  "breaker_recordFailure w =
     (let (now, w1) = Date_now w
      in w1\<lparr> circuitBreaker := recordFailure now (circuitBreaker w1),
             trace := trace w1 @ [RecordFailureCalled] \<rparr>)"

definition budget_recordOutcome :: "bool \<Rightarrow> 'a world \<Rightarrow> 'a world" where
  "budget_recordOutcome success w =
     w\<lparr> budgetManager := recordOutcome success (budgetManager w),
        trace := trace w @ [RecordOutcomeCalled success] \<rparr>"

text \<open>
  \<^verbatim>\<open>await budget.shouldRetry()\<close>: the backpressure check is asked only when one is
  configured, and \<^verbatim>\<open>Math.random()\<close> is drawn only when the method reaches it.
\<close>

definition budget_shouldRetry :: "'a world \<Rightarrow> bool \<times> 'a world" where
  "budget_shouldRetry w =
     (let (bp, w1) = (if checkBackpressure (budgetManager w)
                      then (backpressured w (backpressure_calls w),
                            w\<lparr> backpressure_calls := backpressure_calls w + 1 \<rparr>)
                      else (False, w));
          (rnd, w2) = (if bp \<or> budget (budgetManager w1) \<le> 0 then (0, w1) else Math_random w1);
          (ok, b) = shouldRetry bp rnd (budgetManager w2)
      in (ok, w2\<lparr> budgetManager := b, trace := trace w2 @ [ShouldRetryCalled ok] \<rparr>))"

subsection \<open>Options and the attempt\<close>

text \<open>
  The two callbacks act on the world, since \<open>retryWithCircuitBreaker\<close> passes
  \<open>retry\<close> a predicate that calls the breaker. They return normally: an observer or a
  predicate that throws is outside this model. \<open>maxRetries\<close> is an integer and
  \<open>timeoutMs\<close> a natural number of milliseconds.
\<close>

record 'a RetryOptions =
  maxRetries :: "int option"
  initialDelayMs :: "real option"
  maxDelayMs :: "real option"
  backoffMultiplier :: "real option"
  jitter :: "JitterStrategy option"
  retryIf :: "(error \<Rightarrow> 'a world \<Rightarrow> bool \<times> 'a world) option"
  onRetry :: "(error \<Rightarrow> nat \<Rightarrow> real \<Rightarrow> 'a world \<Rightarrow> 'a world) option"
  timeoutMs :: "nat option"

definition defaultRetryIf :: "error \<Rightarrow> 'a world \<Rightarrow> bool \<times> 'a world" where
  "defaultRetryIf e w = (True, w)"

function show_nat :: "nat \<Rightarrow> string" where
  "show_nat n =
     (if n < 10 then [''0123456789'' ! n]
      else show_nat (n div 10) @ [''0123456789'' ! (n mod 10)])"
  by pat_completeness auto
termination
  by (relation "measure (\<lambda>n. n)") auto

text \<open>
  \<^verbatim>\<open>withTimeout(promise, timeoutMs)\<close>: the race is won by the promise when it settles
  first and by the timer otherwise.
\<close>

definition withTimeout :: "'a outcome \<Rightarrow> nat \<Rightarrow> 'a outcome" where
  "withTimeout promise ms =
     (case promise of
        Pending \<Rightarrow>
          Rejects (ThrowsError (Error (''Operation timed out after '' @ show_nat ms @ ''ms'')))
      | Resolves v \<Rightarrow> Resolves v
      | Rejects x \<Rightarrow> Rejects x)"

text \<open>\<^verbatim>\<open>timeoutMs ? await withTimeout(fn(), timeoutMs) : await fn()\<close>\<close>

definition run_attempt ::
  "('a world \<Rightarrow> 'a outcome \<times> 'a world) \<Rightarrow> nat option \<Rightarrow> 'a world \<Rightarrow> 'a outcome \<times> 'a world"
where
  "run_attempt fn timeout w =
     (case fn w of (r, w1) \<Rightarrow>
        (case timeout of
           None \<Rightarrow> (r, w1)
         | Some ms \<Rightarrow> if ms \<noteq> 0 then (withTimeout r ms, w1) else (r, w1)))"

text \<open>
  The call of \<open>calculateBackoff\<close> made by the loops, with the random number drawn from
  the world when the strategy draws one.
\<close>

definition backoff_delay :: "'a RetryOptions \<Rightarrow> nat \<Rightarrow> real \<Rightarrow> 'a world \<Rightarrow> real \<times> 'a world" where
  "backoff_delay options attempt previousDelay w =
     (let j = nullish (jitter options) Full;
          (rnd, w1) = (if j = NoJitter then (0, w) else Math_random w)
      in (calculateBackoff attempt
            (nullish (initialDelayMs options) 100)
            (nullish (maxDelayMs options) 30000)
            (Some (nullish (backoffMultiplier options) 2))
            (Some j)
            (Some previousDelay) rnd,
          w1))"

text \<open>\<^verbatim>\<open>onRetry?.(lastError, attempt + 1, delay)\<close>\<close>

definition call_onRetry :: "'a RetryOptions \<Rightarrow> error \<Rightarrow> nat \<Rightarrow> real \<Rightarrow> 'a world \<Rightarrow> 'a world" where
  "call_onRetry options e n delay w =
     (case onRetry options of None \<Rightarrow> w | Some f \<Rightarrow> f e n delay w)"

subsection \<open>retry and retryWithResult\<close>

function retry_loop ::
  "('a world \<Rightarrow> 'a outcome \<times> 'a world) \<Rightarrow> 'a RetryOptions \<Rightarrow> nat \<Rightarrow> error option \<Rightarrow> real
   \<Rightarrow> 'a world \<Rightarrow> 'a completion \<times> 'a world"
where
  "retry_loop fn options attempt lastError previousDelay w =
     (if int attempt \<le> nullish (maxRetries options) 3 then
        (case run_attempt fn (timeoutMs options) w of
           (Resolves v, w1) \<Rightarrow> (Returns v, w1)
         | (Pending, w1) \<Rightarrow> (NeverSettles, w1)
         | (Rejects x, w1) \<Rightarrow>
             (if int attempt \<ge> nullish (maxRetries options) 3 then (Raises (to_error x), w1)
              else
                (case nullish (retryIf options) defaultRetryIf (to_error x) w1 of
                   (False, w2) \<Rightarrow> (Raises (to_error x), w2)
                 | (True, w2) \<Rightarrow>
                     (case backoff_delay options attempt previousDelay w2 of
                        (delay, w3) \<Rightarrow>
                          retry_loop fn options (attempt + 1) (Some (to_error x)) delay
                            (sleep delay
                               (call_onRetry options (to_error x) (attempt + 1) delay w3))))))
      else (Raises (nullish lastError (Error ''Retry failed'')), w))"
  by pat_completeness auto
termination
  by (relation "measure (\<lambda>(fn, options, attempt, lastError, previousDelay, w).
                   nat (nullish (maxRetries options) 3 + 1 - int attempt))") auto

definition retry ::
  "('a world \<Rightarrow> 'a outcome \<times> 'a world) \<Rightarrow> 'a RetryOptions \<Rightarrow> 'a world \<Rightarrow> 'a completion \<times> 'a world"
where
  "retry fn options w = retry_loop fn options 0 None (nullish (initialDelayMs options) 100) w"

record 'a RetryResult =
  result :: "'a option"
  error :: "error option"
  success :: bool
  attempts :: nat
  totalTimeMs :: real


subsection \<open>retryWithCircuitBreaker\<close>

text \<open>The predicate that \<open>retryWithCircuitBreaker\<close> passes to \<open>retry\<close>.\<close>

definition breaker_retryIf :: "'a RetryOptions \<Rightarrow> error \<Rightarrow> 'a world \<Rightarrow> bool \<times> 'a world" where
  "breaker_retryIf options e w =
     (case breaker_isAllowed (breaker_recordFailure w) of
        (False, w1) \<Rightarrow> (False, w1)
      | (True, w1) \<Rightarrow> nullish (retryIf options) defaultRetryIf e w1)"

text \<open>The \<^verbatim>\<open>try\<close> block around \<open>retry\<close> and its \<^verbatim>\<open>catch\<close>, applied to what \<open>retry\<close> did.\<close>

fun breaker_try_catch :: "'a completion \<times> 'a world \<Rightarrow> 'a completion \<times> 'a world" where
  "breaker_try_catch (Returns v, w) = (Returns v, breaker_recordSuccess w)"
| "breaker_try_catch (Raises e, w) = (Raises e, breaker_recordFailure w)"
| "breaker_try_catch (NeverSettles, w) = (NeverSettles, w)"

definition retryWithCircuitBreaker ::
  "('a world \<Rightarrow> 'a outcome \<times> 'a world) \<Rightarrow> 'a RetryOptions \<Rightarrow> 'a world \<Rightarrow> 'a completion \<times> 'a world"
where
  "retryWithCircuitBreaker fn options w =
     (case breaker_isAllowed w of
        (False, w1) \<Rightarrow> (Raises (CircuitOpenError ''Circuit breaker is open''), w1)
      | (True, w1) \<Rightarrow>
          breaker_try_catch
            (retry fn (options\<lparr> retryIf := Some (breaker_retryIf options) \<rparr>) w1))"

subsection \<open>retryWithProtection\<close>

function protection_loop ::
  "('a world \<Rightarrow> 'a outcome \<times> 'a world) \<Rightarrow> 'a RetryOptions \<Rightarrow> nat \<Rightarrow> error option \<Rightarrow> real
   \<Rightarrow> 'a world \<Rightarrow> 'a completion \<times> 'a world"
where
  "protection_loop fn options attempt lastError previousDelay w =
     (if int attempt \<le> nullish (maxRetries options) 3 then
        (case run_attempt fn (timeoutMs options) w of
           (Resolves v, w1) \<Rightarrow>
             (Returns v, budget_recordOutcome True (breaker_recordSuccess w1))
         | (Pending, w1) \<Rightarrow> (NeverSettles, w1)
         | (Rejects x, w1) \<Rightarrow>
             (let w2 = budget_recordOutcome False (breaker_recordFailure w1)
              in if int attempt \<ge> nullish (maxRetries options) 3 then (Raises (to_error x), w2)
                 else
                   (case nullish (retryIf options) defaultRetryIf (to_error x) w2 of
                      (False, w3) \<Rightarrow> (Raises (to_error x), w3)
                    | (True, w3) \<Rightarrow>
                        (case breaker_isAllowed w3 of
                           (False, w4) \<Rightarrow>
                             (Raises (CircuitOpenError ''Circuit opened during retry sequence''),
                              w4)
                         | (True, w4) \<Rightarrow>
                             (case budget_shouldRetry w4 of
                                (False, w5) \<Rightarrow> (Raises (to_error x), w5)
                              | (True, w5) \<Rightarrow>
                                  (case backoff_delay options attempt previousDelay w5 of
                                     (delay, w6) \<Rightarrow>
                                       protection_loop fn options (attempt + 1)
                                         (Some (to_error x)) delay
                                         (sleep delay
                                            (call_onRetry options (to_error x) (attempt + 1)
                                               delay w6))))))))
      else (Raises (nullish lastError (Error ''Retry failed'')), w))"
  by pat_completeness auto
termination
  by (relation "measure (\<lambda>(fn, options, attempt, lastError, previousDelay, w).
                   nat (nullish (maxRetries options) 3 + 1 - int attempt))") auto

definition retryWithProtection ::
  "('a world \<Rightarrow> 'a outcome \<times> 'a world) \<Rightarrow> 'a RetryOptions \<Rightarrow> 'a world \<Rightarrow> 'a completion \<times> 'a world"
where
  "retryWithProtection fn options w =
     (case breaker_isAllowed w of
        (False, w1) \<Rightarrow> (Raises (CircuitOpenError ''Circuit breaker is open''), w1)
      | (True, w1) \<Rightarrow>
          protection_loop fn options 0 None (nullish (initialDelayMs options) 100) w1)"

section \<open>Notions used in the statements\<close>

subsection \<open>Invariants\<close>

text \<open>
  The budget stays between 0 and the configured initial value \<open>i\<close>, and the configured
  rates stay in the ranges the invariant needs.
\<close>

definition budget_inv :: "real \<Rightarrow> AdaptiveRetryBudget \<Rightarrow> bool" where
  "budget_inv i b \<longleftrightarrow>
     initialBudget b = i \<and> 0 \<le> budget b \<and> budget b \<le> i \<and>
     0 \<le> budgetIncreaseRate b \<and> 0 \<le> budgetDecreaseRate b \<and> budgetDecreaseRate b \<le> 1"

text \<open>
  The breaker's own counter agrees with the count taken from the history, and is 0 outside
  the half-open state.
\<close>

definition probe_inv :: "CircuitBreaker \<times> nat \<Rightarrow> bool" where
  "probe_inv p \<longleftrightarrow>
     (case p of (b, n) \<Rightarrow> halfOpenAttempts b = n \<and> (state b \<noteq> HalfOpen \<longrightarrow> n = 0))"

subsection \<open>Callbacks that do not invoke the operation\<close>

text \<open>
  A callback keeps \<^verbatim>\<open>fn\<close> when it neither invokes it nor touches the variable
  \<^verbatim>\<open>attempts\<close>, which is private to \<open>retryWithResult\<close>. A predicate accepts an error
  when it answers true for it in every world and keeps \<^verbatim>\<open>fn\<close>; the default predicate
  does. \<open>counted_fn d fn\<close> says that \<open>fn\<close> is one invocation of the operation,
  which adds \<open>d\<close> to \<^verbatim>\<open>attempts\<close>.
\<close>

definition keeps_fn :: "('a world \<Rightarrow> 'a world) \<Rightarrow> bool" where
  "keeps_fn f \<longleftrightarrow>
     (\<forall>w. fn_outcome (f w) = fn_outcome w \<and> fn_calls (f w) = fn_calls w
          \<and> attempts_var (f w) = attempts_var w)"

definition accepting :: "'a RetryOptions \<Rightarrow> error \<Rightarrow> bool" where
  "accepting options e \<longleftrightarrow>
     (case retryIf options of None \<Rightarrow> True
      | Some p \<Rightarrow> (\<forall>w. fst (p e w)) \<and> keeps_fn (\<lambda>w. snd (p e w)))"

definition observing :: "'a RetryOptions \<Rightarrow> bool" where
  "observing options \<longleftrightarrow>
     (case onRetry options of None \<Rightarrow> True
      | Some f \<Rightarrow> (\<forall>e n delay. keeps_fn (f e n delay)))"

definition counted_fn :: "nat \<Rightarrow> ('a world \<Rightarrow> 'a outcome \<times> 'a world) \<Rightarrow> bool" where
  "counted_fn d fn \<longleftrightarrow>
     (\<forall>w. fst (fn w) = fn_outcome w (fn_calls w)
          \<and> fn_outcome (snd (fn w)) = fn_outcome w
          \<and> fn_calls (snd (fn w)) = fn_calls w + 1
          \<and> attempts_var (snd (fn w)) = attempts_var w + d)"

subsection \<open>Concrete inputs\<close>

text \<open>The options \<^verbatim>\<open>{ maxRetries: m }\<close>.\<close>

definition only_maxRetries :: "int \<Rightarrow> 'a RetryOptions" where
  "only_maxRetries m =
     \<lparr> maxRetries = Some m, initialDelayMs = None, maxDelayMs = None,
       backoffMultiplier = None, jitter = None, retryIf = None, onRetry = None,
       timeoutMs = None \<rparr>"

text \<open>The options \<^verbatim>\<open>{ maxRetries: 3, retryIf: () => false }\<close>.\<close>

definition rejecting_options :: "string RetryOptions" where
  "rejecting_options =
     \<lparr> maxRetries = Some 3, initialDelayMs = None, maxDelayMs = None,
       backoffMultiplier = None, jitter = None,
       retryIf = Some (\<lambda>e w. (False, w)), onRetry = None, timeoutMs = None \<rparr>"

definition example_budget_options :: AdaptiveRetryOptions where
  "example_budget_options =
     \<lparr> opt_initialBudget = Some 0.2, opt_budgetIncreaseRate = None,
       opt_budgetDecreaseRate = None, opt_highFailureThreshold = None,
       opt_lowFailureThreshold = None, opt_adjustmentIntervalMs = None,
       opt_onBudgetChange = False, opt_checkBackpressure = False \<rparr>"

definition exhausted_budget :: AdaptiveRetryBudget where
  "exhausted_budget = (new_AdaptiveRetryBudget example_budget_options)\<lparr> budget := 0 \<rparr>"

text \<open>
  \<^verbatim>\<open>new CircuitBreaker({ failureThreshold: 0.5, windowSize: n, resetTimeoutMs: 10 })\<close>
\<close>

definition example_breaker_options :: "nat \<Rightarrow> CircuitBreakerOptions" where
  "example_breaker_options n =
     \<lparr> opt_failureThreshold = Some 0.5, opt_windowSize = Some n,
       opt_resetTimeoutMs = Some 10, opt_onStateChange = False \<rparr>"

text \<open>
  That breaker with \<open>n = 2\<close> after two failures at times 0 and 1 and one
  \<^verbatim>\<open>isAllowed()\<close> at time 15: half-open, its probe handed out.
\<close>

definition probed_breaker :: CircuitBreaker where
  "probed_breaker =
     \<lparr> state = HalfOpen, failures = [True, True], lastFailureTime = 1,
       halfOpenAttempts = 1, failureThreshold = 0.5, windowSize = 2,
       resetTimeoutMs = 10, onStateChange = False, stateChanges = [] \<rparr>"

text \<open>
  A world in which the clock stands at 0, every random draw is 1/2, the breaker is new
  with a window of \<open>n\<close> requests and the budget is new.
\<close>

definition example_world :: "(nat \<Rightarrow> string outcome) \<Rightarrow> nat \<Rightarrow> string world" where
  "example_world outcomes n =
     \<lparr> fn_outcome = outcomes, fn_calls = 0,
       clock = (\<lambda>k. 0), clock_reads = 0,
       random = (\<lambda>k. 1 / 2), random_calls = 0,
       backpressured = (\<lambda>k. False), backpressure_calls = 0,
       circuitBreaker = new_CircuitBreaker (example_breaker_options n),
       budgetManager = new_AdaptiveRetryBudget example_budget_options,
       attempts_var = 0, trace = [] \<rparr>"

definition always_fails :: "nat \<Rightarrow> string outcome" where
  "always_fails k = Rejects (ThrowsError (Error ''boom''))"

definition fails_twice :: "nat \<Rightarrow> string outcome" where
  "fails_twice k = (if k < 2 then Rejects (ThrowsError (Error ''fail'')) else Resolves ''ok'')"

text \<open>The plain object \<^verbatim>\<open>{ 'X-Load-Shedding': 'false' }\<close>.\<close>

definition shedding_false_headers :: headers where
  "shedding_false_headers = Record [''X-Load-Shedding'' \<mapsto> ''false'']"

section \<open>Properties\<close>

declare retry_loop.simps [simp del]
declare protection_loop.simps [simp del]

lemmas example_defs =
  example_world_def always_fails_def fails_twice_def example_breaker_options_def
  example_budget_options_def new_CircuitBreaker_def new_AdaptiveRetryBudget_def nullish_def

lemmas breaker_defs =
  breaker_isAllowed_def isAllowed_def getState_def transition_def Let_def
  breaker_recordFailure_def recordFailure_def trimWindow_def getFailureRate_def Date_now_def

subsection \<open>Backoff\<close>

text \<open>
  Claim C8. With the decorrelated strategy and a previous delay, the delay is
  \<open>min (initialDelay + r * (3 * previousDelay - initialDelay)) maxDelay\<close> for the
  draw \<open>r\<close>; when \<open>0 \<le> r < 1\<close> and \<open>initialDelay \<le> 3 * previousDelay\<close>, the value
  under the cap lies between \<open>initialDelay\<close> and \<open>3 * previousDelay\<close>.
\<close>

theorem decorrelated_delay:
  "calculateBackoff attempt initialDelay maxDelay multiplier (Some Decorrelated)
       (Some previousDelay) r
     = min (initialDelay + r * (3 * previousDelay - initialDelay)) maxDelay
   \<and> (0 \<le> r \<and> r < 1 \<and> initialDelay \<le> 3 * previousDelay \<longrightarrow>
        initialDelay \<le> initialDelay + r * (3 * previousDelay - initialDelay)
        \<and> initialDelay + r * (3 * previousDelay - initialDelay) \<le> 3 * previousDelay)"
proof -
  have eq: "calculateBackoff attempt initialDelay maxDelay multiplier (Some Decorrelated)
       (Some previousDelay) r
     = min (initialDelay + r * (3 * previousDelay - initialDelay)) maxDelay"
    by (simp add: calculateBackoff_def Let_def algebra_simps)
  have rng: "initialDelay \<le> initialDelay + r * (3 * previousDelay - initialDelay)
        \<and> initialDelay + r * (3 * previousDelay - initialDelay) \<le> 3 * previousDelay"
    if h: "0 \<le> r" "r < 1" "initialDelay \<le> 3 * previousDelay"
  proof -
    let ?d = "3 * previousDelay - initialDelay"
    have d: "0 \<le> ?d" using h by simp
    have "0 \<le> r * ?d" using h d by simp
    moreover have "r * ?d \<le> 1 * ?d" using h d by (intro mult_right_mono) simp_all
    ultimately show ?thesis by simp
  qed
  show ?thesis using eq rng by blast
qed

theorem decorrelated_delay_witness:
  "calculateBackoff 2 100 30000 (Some 2) (Some Decorrelated) (Some 250) (1/2) = 425
   \<and> (0::real) \<le> 1/2 \<and> (1/2::real) < 1 \<and> (100::real) \<le> 3 * 250
   \<and> (100::real) \<le> 425 \<and> (425::real) \<le> 3 * 250"
  using decorrelated_delay [of 2 100 30000 "Some 2" 250 "1/2"] by simp

subsection \<open>Adaptive retry budget\<close>

lemma budget_inv_new:
  "documented_ranges options \<Longrightarrow>
   budget_inv (nullish (opt_initialBudget options) 0.2) (new_AdaptiveRetryBudget options)"
  by (simp add: budget_inv_def documented_ranges_def new_AdaptiveRetryBudget_def)

lemma budget_inv_adjust:
  assumes h: "budget_inv i b"
  shows "budget_inv i (adjustBudget b)"
proof -
  have lower: "0 \<le> budget b * (1 - budgetDecreaseRate b)"
    using h by (simp add: budget_inv_def)
  have "budget b * (1 - budgetDecreaseRate b) \<le> budget b * 1"
    using h by (intro mult_left_mono) (simp_all add: budget_inv_def)
  then have upper: "budget b * (1 - budgetDecreaseRate b) \<le> i"
    using h by (simp add: budget_inv_def)
  show ?thesis
    using h lower upper by (simp add: budget_inv_def adjustBudget_def Let_def)
qed

lemma budget_inv_step:
  assumes h: "budget_inv i b"
  shows "budget_inv i (budget_step c b)"
proof (cases c)
  case TimerFires
  then show ?thesis using h budget_inv_adjust by simp
qed (use h in \<open>auto simp: budget_inv_def shouldRetry_def shouldRetrySync_def recordOutcome_def
        budget_reset_def dispose_def Let_def\<close>)

lemma budget_inv_run: "budget_inv i b \<Longrightarrow> budget_inv i (budget_run cs b)"
  by (induction cs arbitrary: b) (simp_all add: budget_inv_step)

text \<open>
  Claim C4. For options in the documented ranges (a non-negative initial budget and
  increase rate, a decrease rate between 0 and 1): the constructor sets the budget to the
  initial budget; after any sequence of calls of the public methods and firings of the
  adjustment timer the budget is at least 0 and at most the initial budget; and
  \<^verbatim>\<open>reset()\<close> then restores the initial budget.
\<close>

theorem budget_stays_in_range:
  assumes "documented_ranges options"
  shows "budget (new_AdaptiveRetryBudget options) = initialBudget (new_AdaptiveRetryBudget options)
    \<and> initialBudget (budget_run cs (new_AdaptiveRetryBudget options))
        = initialBudget (new_AdaptiveRetryBudget options)
    \<and> 0 \<le> budget (budget_run cs (new_AdaptiveRetryBudget options))
    \<and> budget (budget_run cs (new_AdaptiveRetryBudget options))
        \<le> initialBudget (new_AdaptiveRetryBudget options)
    \<and> budget (budget_reset (budget_run cs (new_AdaptiveRetryBudget options)))
        = initialBudget (new_AdaptiveRetryBudget options)"
proof -
  let ?b0 = "new_AdaptiveRetryBudget options"
  have i: "initialBudget ?b0 = nullish (opt_initialBudget options) 0.2"
    by (simp add: new_AdaptiveRetryBudget_def)
  have "budget_inv (initialBudget ?b0) (budget_run cs ?b0)"
    unfolding i using assms by (intro budget_inv_run budget_inv_new)
  then show ?thesis
    by (simp add: budget_inv_def budget_reset_def) (simp add: new_AdaptiveRetryBudget_def)
qed

theorem budget_stays_in_range_witness:
  "documented_ranges example_budget_options
   \<and> budget (budget_run
        [RecordOutcome False, RecordOutcome False, RecordOutcome False, RecordOutcome False,
         TimerFires, ShouldRetrySync (1/20)]
        (new_AdaptiveRetryBudget example_budget_options)) = 9/100
   \<and> 0 \<le> budget (budget_run
        [RecordOutcome False, RecordOutcome False, RecordOutcome False, RecordOutcome False,
         TimerFires, ShouldRetrySync (1/20)]
        (new_AdaptiveRetryBudget example_budget_options))
   \<and> budget (budget_run
        [RecordOutcome False, RecordOutcome False, RecordOutcome False, RecordOutcome False,
         TimerFires, ShouldRetrySync (1/20)]
        (new_AdaptiveRetryBudget example_budget_options))
      \<le> initialBudget (new_AdaptiveRetryBudget example_budget_options)"
proof -
  have r: "documented_ranges example_budget_options"
    by (simp add: documented_ranges_def example_budget_options_def nullish_def)
  have v: "budget (budget_run
        [RecordOutcome False, RecordOutcome False, RecordOutcome False, RecordOutcome False,
         TimerFires, ShouldRetrySync (1/20)]
        (new_AdaptiveRetryBudget example_budget_options)) = 9/100"
    by (simp add: example_budget_options_def new_AdaptiveRetryBudget_def nullish_def
          recordOutcome_def adjustBudget_def shouldRetrySync_def Let_def)
  show ?thesis
    using r v budget_stays_in_range [OF r, of
        "[RecordOutcome False, RecordOutcome False, RecordOutcome False, RecordOutcome False,
         TimerFires, ShouldRetrySync (1/20)]"]
    by blast
qed

text \<open>
  Claim C5. In a state with \<open>budget \<le> 0\<close>, \<^verbatim>\<open>shouldRetry()\<close> and
  \<^verbatim>\<open>shouldRetrySync()\<close> return false, whatever the random draw, the backpressure answer
  and the failure rate are.
\<close>

theorem no_retry_without_budget:
  "budget b \<le> 0 \<Longrightarrow>
     fst (shouldRetry isBackpressured rnd b) = False \<and> fst (shouldRetrySync rnd b) = False"
  by (simp add: shouldRetry_def shouldRetrySync_def)

theorem no_retry_without_budget_witness:
  "budget exhausted_budget \<le> 0
   \<and> fst (shouldRetry False (1/2) exhausted_budget) = False
   \<and> fst (shouldRetrySync (1/2) exhausted_budget) = False"
proof -
  have h: "budget exhausted_budget \<le> 0" by (simp add: exhausted_budget_def)
  show ?thesis using h no_retry_without_budget [OF h, of False "1/2"] by blast
qed

text \<open>
  Claim C10. \<^verbatim>\<open>shouldRetry()\<close> and \<^verbatim>\<open>shouldRetrySync()\<close> return true exactly when no
  backpressure is reported (for the former), the budget is positive and the draw is below
  \<open>min budget (1 - failureRate)\<close>. When they return false the object is unchanged; when
  they return true the only changes are the debit of 0.01, floored at 0, and the increment
  of \<open>totalRetries\<close>.
\<close>

theorem denied_retry_changes_nothing:
  "fst (shouldRetry bp rnd b)
     = (\<not> (checkBackpressure b \<and> bp) \<and> 0 < budget b \<and> rnd < min (budget b) (1 - failureRate b))
   \<and> fst (shouldRetrySync rnd b)
     = (0 < budget b \<and> rnd < min (budget b) (1 - failureRate b))
   \<and> snd (shouldRetry bp rnd b)
     = (if fst (shouldRetry bp rnd b)
        then b\<lparr> budget := max 0 (budget b - 0.01), totalRetries := totalRetries b + 1 \<rparr>
        else b)
   \<and> snd (shouldRetrySync rnd b)
     = (if fst (shouldRetrySync rnd b)
        then b\<lparr> budget := max 0 (budget b - 0.01), totalRetries := totalRetries b + 1 \<rparr>
        else b)"
  by (simp add: shouldRetry_def shouldRetrySync_def Let_def)

theorem denied_retry_changes_nothing_witness:
  "fst (shouldRetry False (1/2) (new_AdaptiveRetryBudget example_budget_options)) = False
   \<and> snd (shouldRetry False (1/2) (new_AdaptiveRetryBudget example_budget_options))
       = new_AdaptiveRetryBudget example_budget_options
   \<and> fst (shouldRetrySync (1/10) (new_AdaptiveRetryBudget example_budget_options)) = True
   \<and> snd (shouldRetrySync (1/10) (new_AdaptiveRetryBudget example_budget_options))
       = (new_AdaptiveRetryBudget example_budget_options)\<lparr> budget := 19/100, totalRetries := 1 \<rparr>"
  using denied_retry_changes_nothing
          [of False "1/2" "new_AdaptiveRetryBudget example_budget_options"]
        denied_retry_changes_nothing
          [of False "1/10" "new_AdaptiveRetryBudget example_budget_options"]
  by (simp add: example_budget_options_def new_AdaptiveRetryBudget_def nullish_def)

subsection \<open>Circuit breaker\<close>

lemma trimWindow_keeps [simp]:
  "state (trimWindow b) = state b" "halfOpenAttempts (trimWindow b) = halfOpenAttempts b"
  by (simp_all add: trimWindow_def)

lemma probe_inv_step:
  assumes "probe_inv (b, n)"
  shows "probe_inv (breaker_step c b,
           (if is_isAllowed c \<and> state (breaker_step c b) = HalfOpen
            then (if state (breaker_step c b) \<noteq> state b then 0 else n) + 1
            else (if state (breaker_step c b) \<noteq> state b then 0 else n)))"
  using assms
  by (cases c)
     (auto simp: probe_inv_def isAllowed_def getState_def transition_def recordSuccess_def
        recordFailure_def breaker_reset_def Let_def split: if_splits)

lemma probe_inv_run: "probe_inv p \<Longrightarrow> probe_inv (breaker_run cs p)"
proof (induction cs arbitrary: p)
  case Nil
  then show ?case by (cases p) simp
next
  case (Cons c cs)
  obtain b n where p: "p = (b, n)" by (cases p)
  show ?case using Cons.prems probe_inv_step [of b n c] unfolding p
    by (simp add: Let_def Cons.IH)
qed

lemma breaker_run_append:
  "breaker_run (cs @ ds) p = breaker_run ds (breaker_run cs p)"
proof (induction cs arbitrary: p)
  case Nil
  then show ?case by (cases p) simp
next
  case (Cons c cs)
  obtain b n where p: "p = (b, n)" by (cases p)
  show ?case unfolding p by (simp add: Let_def Cons.IH)
qed

lemma isAllowed_resolved:
  "state (snd (isAllowed now b)) = resolved_state now b"
  by (auto simp: isAllowed_def getState_def transition_def resolved_state_def Let_def)

lemma isAllowed_answer:
  "probe_inv (b, n) \<Longrightarrow>
   fst (isAllowed now b) =
     (case resolved_state now b of Closed \<Rightarrow> True | Open \<Rightarrow> False | HalfOpen \<Rightarrow> n = 0)"
  by (cases "state b")
     (auto simp: probe_inv_def isAllowed_def getState_def transition_def resolved_state_def
        Let_def)

lemma transition_resets:
  "state b \<noteq> newState \<Longrightarrow> halfOpenAttempts (transition newState b) = 0"
  by (simp add: transition_def)

text \<open>
  Claim C6. Let a breaker be in the state \<open>b\<close> after any history of calls since its
  construction, \<open>n\<close> of them \<^verbatim>\<open>isAllowed()\<close> calls answered since it entered the
  half-open state. \<^verbatim>\<open>isAllowed()\<close> leaves it in the state that resolving the pending
  transition gives (half-open when it was open and
  \<open>now - lastFailureTime \<ge> resetTimeoutMs\<close>, unchanged otherwise); it returns true in
  closed, false in open, and in half-open true exactly when \<open>n = 0\<close>, and it is then
  counted; and a transition to a different state sets the breaker's counter to 0.
\<close>

theorem isAllowed_by_state:
  assumes "breaker_run calls (new_CircuitBreaker options, 0) = (b, n)"
  shows "state (snd (isAllowed now b)) = resolved_state now b
     \<and> fst (isAllowed now b) =
         (case resolved_state now b of Closed \<Rightarrow> True | Open \<Rightarrow> False | HalfOpen \<Rightarrow> n = 0)
     \<and> breaker_run (calls @ [CallIsAllowed now]) (new_CircuitBreaker options, 0)
         = (snd (isAllowed now b), if resolved_state now b = HalfOpen then n + 1 else 0)
     \<and> (state b \<noteq> newState \<longrightarrow> halfOpenAttempts (transition newState b) = 0)"
proof -
  have "probe_inv (new_CircuitBreaker options, 0)"
    by (simp add: probe_inv_def new_CircuitBreaker_def)
  then have inv: "probe_inv (b, n)"
    using probe_inv_run [of "(new_CircuitBreaker options, 0)" calls] assms by simp
  have n0: "n = 0" if "state b \<noteq> HalfOpen"
    using inv that by (simp add: probe_inv_def)
  have run: "breaker_run (calls @ [CallIsAllowed now]) (new_CircuitBreaker options, 0)
         = (snd (isAllowed now b), if resolved_state now b = HalfOpen then n + 1 else 0)"
    using n0 unfolding breaker_run_append assms
    by (cases "state b") (auto simp: Let_def isAllowed_resolved resolved_state_def)
  show ?thesis
    using isAllowed_resolved isAllowed_answer [OF inv] run transition_resets by blast
qed

theorem isAllowed_by_state_witness:
  "breaker_run [CallRecordFailure 0, CallRecordFailure 1, CallIsAllowed 15]
       (new_CircuitBreaker (example_breaker_options 2), 0) = (probed_breaker, 1)
   \<and> resolved_state 16 probed_breaker = HalfOpen
   \<and> fst (isAllowed 16 probed_breaker) = False
   \<and> state probed_breaker \<noteq> Open
   \<and> halfOpenAttempts (transition Open probed_breaker) = 0"
proof -
  have h: "breaker_run [CallRecordFailure 0, CallRecordFailure 1, CallIsAllowed 15]
       (new_CircuitBreaker (example_breaker_options 2), 0) = (probed_breaker, 1)"
    by (simp add: example_breaker_options_def new_CircuitBreaker_def nullish_def probed_breaker_def
          recordFailure_def trimWindow_def getFailureRate_def isAllowed_def getState_def
          transition_def Let_def)
  have r: "resolved_state 16 probed_breaker = HalfOpen"
    by (simp add: resolved_state_def probed_breaker_def)
  have s: "state probed_breaker \<noteq> Open" by (simp add: probed_breaker_def)
  show ?thesis
    using h r s isAllowed_by_state [OF h, of 16 Open] by simp
qed

subsection \<open>The retry loop\<close>

lemma counted_invoke_fn: "counted_fn 0 invoke_fn"
  by (simp add: counted_fn_def invoke_fn_def)


lemma run_attempt_rejects:
  assumes "counted_fn d fn" "fn_outcome w (fn_calls w) = Rejects x"
  shows "\<exists>w1. run_attempt fn timeout w = (Rejects x, w1)
           \<and> fn_outcome w1 = fn_outcome w \<and> fn_calls w1 = fn_calls w + 1
           \<and> attempts_var w1 = attempts_var w + d"
proof -
  obtain r w1 where f: "fn w = (r, w1)" by (cases "fn w")
  have r: "r = Rejects x" and k: "fn_outcome w1 = fn_outcome w" "fn_calls w1 = fn_calls w + 1"
    "attempts_var w1 = attempts_var w + d"
    using assms f unfolding counted_fn_def by (metis fst_conv snd_conv)+
  show ?thesis
    using f r k by (simp add: run_attempt_def withTimeout_def split: option.splits)
qed

lemma run_attempt_resolves:
  assumes "counted_fn d fn" "fn_outcome w (fn_calls w) = Resolves v"
  shows "\<exists>w1. run_attempt fn timeout w = (Resolves v, w1)
           \<and> fn_outcome w1 = fn_outcome w \<and> fn_calls w1 = fn_calls w + 1
           \<and> attempts_var w1 = attempts_var w + d"
proof -
  obtain r w1 where f: "fn w = (r, w1)" by (cases "fn w")
  have r: "r = Resolves v" and k: "fn_outcome w1 = fn_outcome w" "fn_calls w1 = fn_calls w + 1"
    "attempts_var w1 = attempts_var w + d"
    using assms f unfolding counted_fn_def by (metis fst_conv snd_conv)+
  show ?thesis
    using f r k by (simp add: run_attempt_def withTimeout_def split: option.splits)
qed

lemma predicate_accepts:
  assumes "accepting options e"
  shows "\<exists>w2. nullish (retryIf options) defaultRetryIf e w1 = (True, w2)
           \<and> fn_outcome w2 = fn_outcome w1 \<and> fn_calls w2 = fn_calls w1
           \<and> attempts_var w2 = attempts_var w1"
proof (cases "retryIf options")
  case None
  then show ?thesis by (simp add: nullish_def defaultRetryIf_def)
next
  case (Some p)
  then have a: "fst (p e w1)" and k: "keeps_fn (\<lambda>w. snd (p e w))"
    using assms by (simp_all add: accepting_def)
  obtain ok w2 where pw: "p e w1 = (ok, w2)" by (cases "p e w1")
  have "ok" using a pw by simp
  moreover have "fn_outcome w2 = fn_outcome w1 \<and> fn_calls w2 = fn_calls w1
           \<and> attempts_var w2 = attempts_var w1"
    using k pw unfolding keeps_fn_def by (metis snd_conv)
  ultimately show ?thesis using Some pw by (simp add: nullish_def)
qed

lemma backoff_delay_keeps:
  "\<exists>delay w3. backoff_delay options attempt pd w2 = (delay, w3)
           \<and> fn_outcome w3 = fn_outcome w2 \<and> fn_calls w3 = fn_calls w2
           \<and> attempts_var w3 = attempts_var w2"
  by (simp add: backoff_delay_def Let_def Math_random_def)

lemma pause_keeps:
  assumes "observing options"
  shows "fn_outcome (sleep delay (call_onRetry options e n delay w)) = fn_outcome w
       \<and> fn_calls (sleep delay (call_onRetry options e n delay w)) = fn_calls w
       \<and> attempts_var (sleep delay (call_onRetry options e n delay w)) = attempts_var w"
  using assms
  by (auto simp: observing_def sleep_def call_onRetry_def keeps_fn_def split: option.splits)

lemma retry_loop_step:
  assumes fn: "counted_fn d fn"
      and obs: "observing options"
      and rej: "fn_outcome w (fn_calls w) = Rejects x"
      and acc: "accepting options (to_error x)"
      and lt: "int attempt < nullish (maxRetries options) 3"
  shows "\<exists>pd' w'. retry_loop fn options attempt le pd w
              = retry_loop fn options (attempt + 1) (Some (to_error x)) pd' w'
           \<and> fn_outcome w' = fn_outcome w \<and> fn_calls w' = fn_calls w + 1
           \<and> attempts_var w' = attempts_var w + d"
proof -
  obtain w1 where w1: "run_attempt fn (timeoutMs options) w = (Rejects x, w1)"
    "fn_outcome w1 = fn_outcome w" "fn_calls w1 = fn_calls w + 1"
    "attempts_var w1 = attempts_var w + d"
    using run_attempt_rejects [OF fn rej] by blast
  obtain w2 where w2: "nullish (retryIf options) defaultRetryIf (to_error x) w1 = (True, w2)"
    "fn_outcome w2 = fn_outcome w1" "fn_calls w2 = fn_calls w1" "attempts_var w2 = attempts_var w1"
    using predicate_accepts [OF acc] by blast
  obtain delay w3 where w3: "backoff_delay options attempt pd w2 = (delay, w3)"
    "fn_outcome w3 = fn_outcome w2" "fn_calls w3 = fn_calls w2" "attempts_var w3 = attempts_var w2"
    using backoff_delay_keeps by blast
  let ?w' = "sleep delay (call_onRetry options (to_error x) (attempt + 1) delay w3)"
  have "retry_loop fn options attempt le pd w
          = retry_loop fn options (attempt + 1) (Some (to_error x)) delay ?w'"
    using lt w1(1) w2(1) w3(1) by (subst retry_loop.simps) simp
  moreover have "fn_outcome ?w' = fn_outcome w \<and> fn_calls ?w' = fn_calls w + 1
           \<and> attempts_var ?w' = attempts_var w + d"
    using pause_keeps [OF obs, of delay "to_error x" "attempt + 1" w3] w1 w2 w3 by simp
  ultimately show ?thesis by blast
qed

lemma retry_loop_advance:
  assumes fn: "counted_fn d fn"
      and obs: "observing options"
  shows "(\<forall>i<j. fn_outcome w (fn_calls w + i) = Rejects (x (attempt + i))
                \<and> accepting options (to_error (x (attempt + i)))) \<Longrightarrow>
         int (attempt + j) \<le> nullish (maxRetries options) 3 \<Longrightarrow>
         \<exists>le' pd' w'. retry_loop fn options attempt le pd w
              = retry_loop fn options (attempt + j) le' pd' w'
           \<and> fn_outcome w' = fn_outcome w \<and> fn_calls w' = fn_calls w + j
           \<and> attempts_var w' = attempts_var w + j * d"
proof (induction j arbitrary: attempt le pd w)
  case 0
  then show ?case by auto
next
  case (Suc j)
  have rej: "fn_outcome w (fn_calls w) = Rejects (x attempt)"
    and acc: "accepting options (to_error (x attempt))"
    using Suc.prems(1) by force+
  have lt: "int attempt < nullish (maxRetries options) 3" using Suc.prems(2) by simp
  obtain pd1 w1 where s: "retry_loop fn options attempt le pd w
              = retry_loop fn options (attempt + 1) (Some (to_error (x attempt))) pd1 w1"
     and k: "fn_outcome w1 = fn_outcome w" "fn_calls w1 = fn_calls w + 1"
           "attempts_var w1 = attempts_var w + d"
    using retry_loop_step [OF fn obs rej acc lt] by blast
  have h1: "\<forall>i<j. fn_outcome w1 (fn_calls w1 + i) = Rejects (x (attempt + 1 + i))
                \<and> accepting options (to_error (x (attempt + 1 + i)))"
  proof (intro allI impI)
    fix i assume "i < j"
    then have "Suc i < Suc j" by simp
    then have "fn_outcome w (fn_calls w + Suc i) = Rejects (x (attempt + Suc i))
                \<and> accepting options (to_error (x (attempt + Suc i)))"
      using Suc.prems(1) by blast
    then show "fn_outcome w1 (fn_calls w1 + i) = Rejects (x (attempt + 1 + i))
                \<and> accepting options (to_error (x (attempt + 1 + i)))"
      using k by simp
  qed
  have h2: "int (attempt + 1 + j) \<le> nullish (maxRetries options) 3"
    using Suc.prems(2) by simp
  obtain le' pd' w' where r: "retry_loop fn options (attempt + 1) (Some (to_error (x attempt))) pd1 w1
              = retry_loop fn options (attempt + 1 + j) le' pd' w'"
     and k': "fn_outcome w' = fn_outcome w1" "fn_calls w' = fn_calls w1 + j"
           "attempts_var w' = attempts_var w1 + j * d"
    using Suc.IH [OF h1 h2] by blast
  have "retry_loop fn options attempt le pd w = retry_loop fn options (attempt + Suc j) le' pd' w'"
    using s r by simp
  moreover have "fn_outcome w' = fn_outcome w \<and> fn_calls w' = fn_calls w + Suc j
           \<and> attempts_var w' = attempts_var w + Suc j * d"
    using k k' by simp
  ultimately show ?case by blast
qed

lemma retry_loop_success:
  assumes fn: "counted_fn d fn"
      and res: "fn_outcome w (fn_calls w) = Resolves v"
      and le: "int attempt \<le> nullish (maxRetries options) 3"
  shows "\<exists>w'. retry_loop fn options attempt le pd w = (Returns v, w')
           \<and> fn_calls w' = fn_calls w + 1 \<and> attempts_var w' = attempts_var w + d"
proof -
  obtain w1 where w1: "run_attempt fn (timeoutMs options) w = (Resolves v, w1)"
    "fn_outcome w1 = fn_outcome w" "fn_calls w1 = fn_calls w + 1"
    "attempts_var w1 = attempts_var w + d"
    using run_attempt_resolves [OF fn res] by blast
  have "retry_loop fn options attempt le pd w = (Returns v, w1)"
    using le w1(1) by (subst retry_loop.simps) simp
  then show ?thesis using w1 by blast
qed

lemma retry_loop_exhausted:
  assumes fn: "counted_fn d fn"
      and rej: "fn_outcome w (fn_calls w) = Rejects x"
      and eq: "int attempt = nullish (maxRetries options) 3"
  shows "\<exists>w'. retry_loop fn options attempt le pd w = (Raises (to_error x), w')
           \<and> fn_calls w' = fn_calls w + 1 \<and> attempts_var w' = attempts_var w + d"
proof -
  obtain w1 where w1: "run_attempt fn (timeoutMs options) w = (Rejects x, w1)"
    "fn_outcome w1 = fn_outcome w" "fn_calls w1 = fn_calls w + 1"
    "attempts_var w1 = attempts_var w + d"
    using run_attempt_rejects [OF fn rej] by blast
  have "retry_loop fn options attempt le pd w = (Raises (to_error x), w1)"
    using eq w1(1) by (subst retry_loop.simps) simp
  then show ?thesis using w1 by blast
qed

lemma only_maxRetries_simps:
  "accepting (only_maxRetries m) e" "observing (only_maxRetries m)"
  "nullish (maxRetries (only_maxRetries m)) 3 = m"
  by (simp_all add: only_maxRetries_def accepting_def observing_def nullish_def)

text \<open>
  Claim C3. For \<^verbatim>\<open>retry(fn, { maxRetries: m })\<close> with \<open>m \<ge> 0\<close>: when the first \<open>k\<close>
  invocations of \<^verbatim>\<open>fn\<close> reject, \<open>k \<le> m\<close>, and the next one resolves with \<open>v\<close>, the
  call returns \<open>v\<close> after exactly \<open>k + 1\<close> invocations; when the first \<open>m + 1\<close>
  invocations all reject, the call raises the error of the last of them (the rejected
  error object, or \<^verbatim>\<open>new Error(String(value))\<close> for another value) after exactly
  \<open>m + 1\<close> invocations.
\<close>

theorem retry_call_counts:
  fixes w :: "'a world"
  assumes m: "0 \<le> m"
  shows "(int k \<le> m \<and> (\<forall>i<k. fn_outcome w (fn_calls w + i) = Rejects (x i))
            \<and> fn_outcome w (fn_calls w + k) = Resolves v
          \<longrightarrow> fst (retry invoke_fn (only_maxRetries m) w) = Returns v
              \<and> fn_calls (snd (retry invoke_fn (only_maxRetries m) w)) = fn_calls w + (k + 1))
       \<and> ((\<forall>i. int i \<le> m \<longrightarrow> fn_outcome w (fn_calls w + i) = Rejects (x i))
          \<longrightarrow> fst (retry invoke_fn (only_maxRetries m) w) = Raises (to_error (x (nat m)))
              \<and> fn_calls (snd (retry invoke_fn (only_maxRetries m) w)) = fn_calls w + (nat m + 1))"
proof (intro conjI impI)
  let ?o = "only_maxRetries m :: 'a RetryOptions"
  let ?pd = "nullish (initialDelayMs ?o) 100"
  {
    assume h: "int k \<le> m \<and> (\<forall>i<k. fn_outcome w (fn_calls w + i) = Rejects (x i))
            \<and> fn_outcome w (fn_calls w + k) = Resolves v"
    have a: "\<forall>i<k. fn_outcome w (fn_calls w + i) = Rejects (x (0 + i))
                \<and> accepting ?o (to_error (x (0 + i)))"
      using h by (simp add: only_maxRetries_simps)
    have b: "int (0 + k) \<le> nullish (maxRetries ?o) 3"
      using h by (simp add: only_maxRetries_simps)
    obtain le' pd' w' where s: "retry_loop invoke_fn ?o 0 None ?pd w
              = retry_loop invoke_fn ?o (0 + k) le' pd' w'"
      and kk: "fn_outcome w' = fn_outcome w" "fn_calls w' = fn_calls w + k"
      using retry_loop_advance [OF counted_invoke_fn only_maxRetries_simps(2) a b] by blast
    have res: "fn_outcome w' (fn_calls w') = Resolves v" using h kk by simp
    have le: "int k \<le> nullish (maxRetries ?o) 3" using h by (simp add: only_maxRetries_simps)
    obtain w'' where f: "retry_loop invoke_fn ?o k le' pd' w' = (Returns v, w'')"
      "fn_calls w'' = fn_calls w' + 1"
      using retry_loop_success [OF counted_invoke_fn res le] by blast
    have r: "retry invoke_fn ?o w = (Returns v, w'')"
      using s f by (simp add: retry_def)
    show "fst (retry invoke_fn ?o w) = Returns v" using r by simp
    show "fn_calls (snd (retry invoke_fn ?o w)) = fn_calls w + (k + 1)"
      using r f kk by simp
  }
  {
    assume h: "\<forall>i. int i \<le> m \<longrightarrow> fn_outcome w (fn_calls w + i) = Rejects (x i)"
    have a: "\<forall>i<nat m. fn_outcome w (fn_calls w + i) = Rejects (x (0 + i))
                \<and> accepting ?o (to_error (x (0 + i)))"
      using h by (simp add: only_maxRetries_simps)
    have b: "int (0 + nat m) \<le> nullish (maxRetries ?o) 3"
      using m by (simp add: only_maxRetries_simps)
    obtain le' pd' w' where s: "retry_loop invoke_fn ?o 0 None ?pd w
              = retry_loop invoke_fn ?o (0 + nat m) le' pd' w'"
      and kk: "fn_outcome w' = fn_outcome w" "fn_calls w' = fn_calls w + nat m"
      using retry_loop_advance [OF counted_invoke_fn only_maxRetries_simps(2) a b] by blast
    have rej: "fn_outcome w' (fn_calls w') = Rejects (x (nat m))" using h kk m by simp
    have eq: "int (nat m) = nullish (maxRetries ?o) 3" using m by (simp add: only_maxRetries_simps)
    obtain w'' where f: "retry_loop invoke_fn ?o (nat m) le' pd' w' = (Raises (to_error (x (nat m))), w'')"
      "fn_calls w'' = fn_calls w' + 1"
      using retry_loop_exhausted [OF counted_invoke_fn rej eq] by blast
    have r: "retry invoke_fn ?o w = (Raises (to_error (x (nat m))), w'')"
      using s f by (simp add: retry_def)
    show "fst (retry invoke_fn ?o w) = Raises (to_error (x (nat m)))" using r by simp
    show "fn_calls (snd (retry invoke_fn ?o w)) = fn_calls w + (nat m + 1)"
      using r f kk by simp
  }
qed

theorem retry_call_counts_witness:
  "fst (retry invoke_fn (only_maxRetries 2) (example_world fails_twice 10)) = Returns ''ok''
   \<and> fn_calls (snd (retry invoke_fn (only_maxRetries 2) (example_world fails_twice 10))) = 3
   \<and> fst (retry invoke_fn (only_maxRetries 2) (example_world always_fails 10))
       = Raises (Error ''boom'')
   \<and> fn_calls (snd (retry invoke_fn (only_maxRetries 2) (example_world always_fails 10))) = 3"
proof -
  have m: "(0::int) \<le> 2" by simp
  have a: "int 2 \<le> 2
      \<and> (\<forall>i<2. fn_outcome (example_world fails_twice 10)
                  (fn_calls (example_world fails_twice 10) + i)
                = Rejects ((\<lambda>i. ThrowsError (Error ''fail'')) i))
      \<and> fn_outcome (example_world fails_twice 10)
          (fn_calls (example_world fails_twice 10) + 2) = Resolves ''ok''"
    by (simp add: example_world_def fails_twice_def)
  have b: "\<forall>i. int i \<le> 2 \<longrightarrow>
        fn_outcome (example_world always_fails 10)
          (fn_calls (example_world always_fails 10) + i)
        = Rejects ((\<lambda>i. ThrowsError (Error ''boom'')) i)"
    by (simp add: example_world_def always_fails_def)
  show ?thesis
    using a b
      retry_call_counts [OF m, of 2 "example_world fails_twice 10"
        "\<lambda>i. ThrowsError (Error ''fail'')" "''ok''"]
      retry_call_counts [OF m, of 0 "example_world always_fails 10"
        "\<lambda>i. ThrowsError (Error ''boom'')" "''ok''"]
    by (simp add: example_world_def)
qed

subsection \<open>retryWithResult\<close>




lemmas run_defs =
  example_defs breaker_defs run_attempt_def invoke_fn_def breaker_retryIf_def
  retryWithCircuitBreaker_def retry_def retry_loop.simps defaultRetryIf_def




subsection \<open>Retry loops with a circuit breaker\<close>

text \<open>
  Claim C1 fails on \<open>retryWithCircuitBreaker\<close>. The breaker has a window of one
  request, \<^verbatim>\<open>fn\<close> always rejects with \<^verbatim>\<open>Error('boom')\<close> and the options are
  \<^verbatim>\<open>{ maxRetries: 3 }\<close>: the first attempt fails, three retries remain, the default
  predicate accepts, the breaker opens and \<^verbatim>\<open>isAllowed()\<close> reports false. On this
  input \<open>retryWithCircuitBreaker\<close> raises the operation's own error, where
  \<open>retryWithProtection\<close> raises the circuit-open error.
\<close>

theorem breaker_denial_raises_last_error:
  "fst (retryWithCircuitBreaker invoke_fn (only_maxRetries 3) (example_world always_fails 1))
     = Raises (Error ''boom'')
   \<and> trace (snd (retryWithCircuitBreaker invoke_fn (only_maxRetries 3)
                   (example_world always_fails 1)))
     = [IsAllowedCalled True, FnCalled, RecordFailureCalled, IsAllowedCalled False,
        RecordFailureCalled]
   \<and> fst (retryWithProtection invoke_fn (only_maxRetries 3) (example_world always_fails 1))
     = Raises (CircuitOpenError ''Circuit opened during retry sequence'')
   \<and> trace (snd (retryWithProtection invoke_fn (only_maxRetries 3)
                   (example_world always_fails 1)))
     = [IsAllowedCalled True, FnCalled, RecordFailureCalled, RecordOutcomeCalled False,
        IsAllowedCalled False]"
  by (simp add: run_defs only_maxRetries_def retryWithProtection_def protection_loop.simps
        budget_recordOutcome_def recordOutcome_def)

text \<open>
  Claim C2 fails on \<open>retryWithCircuitBreaker\<close> when the retry predicate rejects the
  error: \<^verbatim>\<open>fn\<close> is invoked once and fails, and \<^verbatim>\<open>recordFailure()\<close> is called twice,
  once by the predicate passed to \<open>retry\<close> and once by the \<^verbatim>\<open>catch\<close> block, so the
  breaker's window holds two failures.
\<close>

theorem rejected_failure_recorded_twice:
  "trace (snd (retryWithCircuitBreaker invoke_fn rejecting_options
                   (example_world always_fails 10)))
     = [IsAllowedCalled True, FnCalled, RecordFailureCalled, IsAllowedCalled True,
        RecordFailureCalled]
   \<and> fn_calls (snd (retryWithCircuitBreaker invoke_fn rejecting_options
                   (example_world always_fails 10))) = 1
   \<and> failures (circuitBreaker (snd (retryWithCircuitBreaker invoke_fn rejecting_options
                   (example_world always_fails 10)))) = [True, True]"
  by (simp add: run_defs rejecting_options_def)

subsection \<open>Backpressure\<close>

text \<open>
  Claim C9, as stated, fails: a shedding header with the value \<^verbatim>\<open>false\<close> is present,
  and nothing is stored.
\<close>

theorem shedding_false_not_stored:
  "get_header shedding_false_headers SHEDDING = Some ''false''
   \<and> recordFromHeaders (\<lambda>s. NaN) 0 ''api'' shedding_false_headers
        (new_BackpressureManager None None) = new_BackpressureManager None None
   \<and> signals (recordFromHeaders (\<lambda>s. NaN) 0 ''api'' shedding_false_headers
        (new_BackpressureManager None None)) ''api'' = None"
  by (simp add: shedding_false_headers_def SHEDDING_def LOAD_LEVEL_def RETRY_AFTER_def
        recordFromHeaders_def Let_def when_truthy_def new_BackpressureManager_def
        toLowerCase_def lower_char_def)

text \<open>
  Claim C9, amended. \<open>recordFromHeaders\<close> stores a signal if and only if the load-level
  header is present and not empty, or the retry-after header is present and not empty, or
  the shedding header is \<^verbatim>\<open>true\<close> or \<^verbatim>\<open>1\<close>. The stored signal's \<open>isOverloaded\<close> is:
  shedding, or the load level is present and at least \<open>overloadThreshold\<close>. When nothing
  is stored the manager is unchanged.
\<close>

theorem recordFromHeaders_stores:
  "recordFromHeaders parseFloat now serviceId hs m =
     (if truthy (get_header hs LOAD_LEVEL) \<or> truthy (get_header hs RETRY_AFTER)
         \<or> get_header hs SHEDDING = Some ''true'' \<or> get_header hs SHEDDING = Some ''1''
      then m\<lparr> signals := (signals m)(serviceId \<mapsto>
             \<lparr> isOverloaded =
                 (get_header hs SHEDDING = Some ''true'' \<or> get_header hs SHEDDING = Some ''1''
                  \<or> (case when_truthy (get_header hs LOAD_LEVEL) parseFloat of
                        None \<Rightarrow> False
                      | Some l \<Rightarrow> number_ge l (overloadThreshold m))),
               loadLevel = when_truthy (get_header hs LOAD_LEVEL) parseFloat,
               retryAfterMs =
                 when_truthy (get_header hs RETRY_AFTER) (\<lambda>v. number_times (parseFloat v) 1000),
               timestamp = now \<rparr>) \<rparr>
      else m)"
  by (auto simp: recordFromHeaders_def recordSignal_def Let_def truthy_def when_truthy_def
        split: option.splits)

theorem recordFromHeaders_stores_witness:
  "recordFromHeaders (\<lambda>s. Num (9/10)) 5 ''api'' (Record [''x-backpressure'' \<mapsto> ''0.9''])
      (new_BackpressureManager None None)
     = (new_BackpressureManager None None)\<lparr> signals :=
          [''api'' \<mapsto> \<lparr> isOverloaded = True, loadLevel = Some (Num (9/10)),
                         retryAfterMs = None, timestamp = 5 \<rparr>] \<rparr>"
  using recordFromHeaders_stores
          [of "\<lambda>s. Num (9/10)" 5 "''api''" "Record [''x-backpressure'' \<mapsto> ''0.9'']"
              "new_BackpressureManager None None"]
  by (simp add: SHEDDING_def LOAD_LEVEL_def RETRY_AFTER_def truthy_def when_truthy_def
        new_BackpressureManager_def nullish_def toLowerCase_def lower_char_def)

end
